theory Spec2Isabelle
  imports Complex_Main
begin

section \<open>The NoClip controller of \<^verbatim>\<open>src/NoClip.js\<close>\<close>

text \<open>
  The class \<^verbatim>\<open>NoClipSystem\<close> is embedded function by function. JavaScript numbers are
  modelled by exact reals (the ideal arithmetic the specification's formulas are written in),
  \<^verbatim>\<open>Date.now()\<close> and \<^verbatim>\<open>tickRate\<close> by integers (milliseconds).

  The host (RAGE Multiplayer client API \<^verbatim>\<open>mp\<close>) is outside the repository. What a host
  call returns is an input of the model (record \<open>host\<close>); what the controller asks the host
  to do is appended to a log of calls (record \<open>world\<close>), and a position write also becomes
  the entity's position. \<^verbatim>\<open>mp.players.local\<close> is a live object whose \<^verbatim>\<open>position\<close> is a
  vector, as the host guarantees on a client; so the guard \<^verbatim>\<open>!entity.position\<close> of
  \<^verbatim>\<open>setEntityToGround\<close> never fires, while its guard \<^verbatim>\<open>!entity\<close> is the \<open>None\<close> case.
  \<^verbatim>\<open>Date.now()\<close> gives one reading per callback (\<open>now\<close>).
\<close>

subsection \<open>Data\<close>

record vector3 =
  vx :: real
  vy :: real
  vz :: real

record speed_table =
  slow :: real
  normal :: real
  fast :: real

record config =
  baseSpeed :: real
  maxSpeed :: real
  acceleration :: real
  fastAcceleration :: real
  tickRate :: int
  speeds :: speed_table

record movement =
  forward :: real
  strafe :: real
  vertical :: real
  lastUpdate :: int

record controls =
  TOGGLE :: nat
  FORWARD :: nat
  BACKWARD :: nat
  LEFT :: nat
  RIGHT :: nat
  UP :: nat
  DOWN :: nat
  FAST :: nat
  SLOW :: nat

text \<open>An object reference: the local player, or a vehicle object (by identity).\<close>

datatype entity = LocalPlayer | Vehicle nat

text \<open>The object \<^verbatim>\<open>mp.players.local.vehicle\<close>, when it is not null.\<close>

record vehicle_obj =
  ident :: nat
  handle :: int

type_synonym camera_obj = nat

record noclip =
  isActive :: bool
  config :: config
  state :: movement
  controls :: controls
  camera :: "camera_obj option"
  targetEntity :: "entity option"

text \<open>What the host answers during one callback.\<close>

record host =
  vehicle :: "vehicle_obj option"
  cameras_new :: "camera_obj option"
  isControlPressed :: "nat \<Rightarrow> bool"
  now :: int
  getDirection :: vector3
  getGroundZFor3dCoord :: "real \<Rightarrow> real \<Rightarrow> real \<Rightarrow> real"

text \<open>The calls issued to the host, in order.\<close>

datatype call =
  CamerasNew
  | FreezePosition entity bool
  | SetCollision entity bool bool
  | SetCoordsNoOffset entity real real real
  | GetGroundZ real real real

record world =
  position :: "entity \<Rightarrow> vector3"
  calls :: "call list"

datatype error = TypeError

datatype axis = AxForward | AxStrafe | AxVertical

subsection \<open>Constructor\<close>

definition new_NoClipSystem :: "int \<Rightarrow> noclip" where
  "new_NoClipSystem t =
     \<lparr> isActive = False,
       config = \<lparr> baseSpeed = 2, maxSpeed = 8, acceleration = 1025 / 1000,
                  fastAcceleration = 105 / 100, tickRate = 0,
                  speeds = \<lparr> slow = 2 / 100, normal = 2 / 10, fast = 1 \<rparr> \<rparr>,
       state = \<lparr> forward = 2, strafe = 2, vertical = 2, lastUpdate = t \<rparr>,
       controls = \<lparr> TOGGLE = 113, FORWARD = 32, BACKWARD = 33, LEFT = 34, RIGHT = 35,
                    UP = 321, DOWN = 326, FAST = 24, SLOW = 25 \<rparr>,
       camera = None,
       targetEntity = None \<rparr>"

subsection \<open>Host calls\<close>

definition issue :: "call \<Rightarrow> world \<Rightarrow> world" where
  "issue c w = w\<lparr> calls := calls w @ [c] \<rparr>"

definition freezePosition :: "entity \<Rightarrow> bool \<Rightarrow> world \<Rightarrow> world" where
  "freezePosition e b w = issue (FreezePosition e b) w"

definition setCollision :: "entity \<Rightarrow> bool \<Rightarrow> bool \<Rightarrow> world \<Rightarrow> world" where
  "setCollision e a b w = issue (SetCollision e a b) w"

definition setCoordsNoOffset :: "entity \<Rightarrow> real \<Rightarrow> real \<Rightarrow> real \<Rightarrow> world \<Rightarrow> world" where
  "setCoordsNoOffset e a b c w =
     issue (SetCoordsNoOffset e a b c)
       (w\<lparr> position := (position w)(e := \<lparr> vx = a, vy = b, vz = c \<rparr>) \<rparr>)"

subsection \<open>Target resolution\<close>

definition isPlayerInVehicle :: "host \<Rightarrow> bool" where
  "isPlayerInVehicle h =
     (case vehicle h of None \<Rightarrow> False | Some v \<Rightarrow> handle v \<noteq> 0)"

definition getTargetEntity :: "host \<Rightarrow> entity option" where
  "getTargetEntity h =
     (if isPlayerInVehicle h
      then (case vehicle h of None \<Rightarrow> None | Some v \<Rightarrow> Some (Vehicle (ident v)))
      else Some LocalPlayer)"

subsection \<open>Movement state\<close>

definition resetState :: "noclip \<Rightarrow> noclip" where
  "resetState s =
     s\<lparr> state := (state s)\<lparr> forward := baseSpeed (config s),
                             strafe := baseSpeed (config s),
                             vertical := baseSpeed (config s) \<rparr> \<rparr>"

fun axis_get :: "axis \<Rightarrow> movement \<Rightarrow> real" where
  "axis_get AxForward m = forward m"
| "axis_get AxStrafe m = strafe m"
| "axis_get AxVertical m = vertical m"

fun axis_set :: "axis \<Rightarrow> real \<Rightarrow> movement \<Rightarrow> movement" where
  "axis_set AxForward v m = m\<lparr> forward := v \<rparr>"
| "axis_set AxStrafe v m = m\<lparr> strafe := v \<rparr>"
| "axis_set AxVertical v m = m\<lparr> vertical := v \<rparr>"

definition accelerateAxis :: "axis \<Rightarrow> noclip \<Rightarrow> noclip" where
  "accelerateAxis a s =
     (if axis_get a (state s) < maxSpeed (config s)
      then s\<lparr> state := axis_set a (axis_get a (state s) * acceleration (config s)) (state s) \<rparr>
      else s)"

subsection \<open>Enable, disable, toggle, destroy\<close>

definition setEntityToGround :: "host \<Rightarrow> entity option \<Rightarrow> world \<Rightarrow> world" where
  "setEntityToGround h e w =
     (case e of
        None \<Rightarrow> w
      | Some ent \<Rightarrow>
          (let p = position w ent;
               groundZ = getGroundZFor3dCoord h (vx p) (vy p) (vz p);
               w1 = issue (GetGroundZ (vx p) (vy p) (vz p)) w
           in setCoordsNoOffset ent (vx p) (vy p) groundZ w1))"

text \<open>
  \<^verbatim>\<open>enable()\<close> with the value that its first line stores in \<^verbatim>\<open>this.targetEntity\<close>
  given as \<open>tgt\<close>; \<open>enable\<close> below passes what \<open>getTargetEntity\<close> returns.
\<close>

definition enable_with :: "entity option \<Rightarrow> host \<Rightarrow> noclip \<times> world \<Rightarrow> noclip \<times> world" where
  "enable_with tgt h sw =
     (let s1 = (fst sw)\<lparr> targetEntity := tgt \<rparr>;
          s2 = s1\<lparr> camera := cameras_new h \<rparr>;
          w1 = issue CamerasNew (snd sw)
      in if camera s2 = None then (s2\<lparr> isActive := False \<rparr>, w1)
         else (case targetEntity s2 of
                 None \<Rightarrow> (s2, w1)
               | Some t \<Rightarrow>
                   if isPlayerInVehicle h
                   then (s2, setCollision t False False (freezePosition t True w1))
                   else (s2, setCollision LocalPlayer False False
                               (freezePosition LocalPlayer True w1))))"

definition enable :: "host \<Rightarrow> noclip \<times> world \<Rightarrow> noclip \<times> world" where
  "enable h sw = enable_with (getTargetEntity h) h sw"

definition disable :: "host \<Rightarrow> noclip \<times> world \<Rightarrow> noclip \<times> world" where
  "disable h sw =
     (let s = fst sw; w = snd sw;
          w1 = (case targetEntity s of
                  None \<Rightarrow> w
                | Some t \<Rightarrow>
                    if isPlayerInVehicle h
                    then setCollision t True True (freezePosition t False w)
                    else setEntityToGround h (Some LocalPlayer)
                           (setCollision LocalPlayer True True
                              (freezePosition LocalPlayer False w)))
      in ((resetState s)\<lparr> targetEntity := None, camera := None \<rparr>, w1))"

definition toggle :: "host \<Rightarrow> noclip \<times> world \<Rightarrow> noclip \<times> world" where
  "toggle h sw =
     (let s1 = (fst sw)\<lparr> isActive := \<not> isActive (fst sw) \<rparr>
      in if isActive s1 then enable h (s1, snd sw) else disable h (s1, snd sw))"

definition destroy :: "host \<Rightarrow> noclip \<times> world \<Rightarrow> noclip \<times> world" where
  "destroy h sw = (if isActive (fst sw) then disable h sw else sw)"

subsection \<open>The per-frame update\<close>

definition shouldUpdate :: "host \<Rightarrow> noclip \<Rightarrow> bool" where
  "shouldUpdate h s \<longleftrightarrow>
     isActive s \<and> camera s \<noteq> None \<and> targetEntity s \<noteq> None
     \<and> now h - lastUpdate (state s) > tickRate (config s)"

definition getCurrentSpeed :: "host \<Rightarrow> noclip \<Rightarrow> real" where
  "getCurrentSpeed h s =
     (if isControlPressed h (FAST (controls s)) then fast (speeds (config s))
      else if isControlPressed h (SLOW (controls s)) then slow (speeds (config s))
      else normal (speeds (config s)))"

text \<open>
  The handlers mutate the controller and the position object they are given; the
  model returns both.
\<close>

definition handleForwardMovement ::
  "host \<Rightarrow> vector3 \<Rightarrow> real \<Rightarrow> noclip \<times> vector3 \<Rightarrow> noclip \<times> vector3" where
  "handleForwardMovement h direction speed sp =
     (let s = fst sp; p = snd sp
      in if isControlPressed h (FORWARD (controls s)) then
           (let s1 = accelerateAxis AxForward s;
                mv = forward (state s1) * speed
            in (s1, p\<lparr> vx := vx p + vx direction * mv,
                       vy := vy p + vy direction * mv,
                       vz := vz p + vz direction * mv \<rparr>))
         else if isControlPressed h (BACKWARD (controls s)) then
           (let s1 = accelerateAxis AxForward s;
                mv = forward (state s1) * speed
            in (s1, p\<lparr> vx := vx p - vx direction * mv,
                       vy := vy p - vy direction * mv,
                       vz := vz p - vz direction * mv \<rparr>))
         else (s\<lparr> state := (state s)\<lparr> forward := baseSpeed (config s) \<rparr> \<rparr>, p))"

definition handleStrafeMovement ::
  "host \<Rightarrow> vector3 \<Rightarrow> real \<Rightarrow> noclip \<times> vector3 \<Rightarrow> noclip \<times> vector3" where
  "handleStrafeMovement h direction speed sp =
     (let s = fst sp; p = snd sp;
          sx = - vy direction; sy = vx direction
      in if isControlPressed h (LEFT (controls s)) then
           (let s1 = accelerateAxis AxStrafe s;
                mv = strafe (state s1) * speed
            in (s1, p\<lparr> vx := vx p + sx * mv, vy := vy p + sy * mv \<rparr>))
         else if isControlPressed h (RIGHT (controls s)) then
           (let s1 = accelerateAxis AxStrafe s;
                mv = strafe (state s1) * speed
            in (s1, p\<lparr> vx := vx p - sx * mv, vy := vy p - sy * mv \<rparr>))
         else (s\<lparr> state := (state s)\<lparr> strafe := baseSpeed (config s) \<rparr> \<rparr>, p))"

definition handleVerticalMovement ::
  "host \<Rightarrow> real \<Rightarrow> noclip \<times> vector3 \<Rightarrow> noclip \<times> vector3" where
  "handleVerticalMovement h speed sp =
     (let s = fst sp; p = snd sp
      in if isControlPressed h (UP (controls s)) then
           (let s1 = accelerateAxis AxVertical s
            in (s1, p\<lparr> vz := vz p + vertical (state s1) * speed \<rparr>))
         else if isControlPressed h (DOWN (controls s)) then
           (let s1 = accelerateAxis AxVertical s
            in (s1, p\<lparr> vz := vz p - vertical (state s1) * speed \<rparr>))
         else (s\<lparr> state := (state s)\<lparr> vertical := baseSpeed (config s) \<rparr> \<rparr>, p))"

definition handleMovement ::
  "host \<Rightarrow> vector3 \<Rightarrow> real \<Rightarrow> noclip \<times> vector3 \<Rightarrow> noclip \<times> vector3" where
  "handleMovement h direction speed sp =
     handleVerticalMovement h speed
       (handleStrafeMovement h direction speed
          (handleForwardMovement h direction speed sp))"

definition updateEntityPosition :: "host \<Rightarrow> entity \<Rightarrow> vector3 \<Rightarrow> world \<Rightarrow> world" where
  "updateEntityPosition h t p w =
     (if isPlayerInVehicle h then setCoordsNoOffset t (vx p) (vy p) (vz p) w
      else setCoordsNoOffset LocalPlayer (vx p) (vy p) (vz p) w)"

text \<open>
  \<^verbatim>\<open>update()\<close> dereferences \<^verbatim>\<open>this.camera\<close> and \<^verbatim>\<open>this.targetEntity\<close> before it changes
  anything: a null one raises a TypeError.
\<close>

definition update :: "host \<Rightarrow> noclip \<times> world \<Rightarrow> error + noclip \<times> world" where
  "update h sw =
     (let s = fst sw; w = snd sw; currentSpeed = getCurrentSpeed h s
      in case camera s of
           None \<Rightarrow> Inl TypeError
         | Some c \<Rightarrow>
             (case targetEntity s of
                None \<Rightarrow> Inl TypeError
              | Some t \<Rightarrow>
                  (let sp = handleMovement h (getDirection h) currentSpeed (s, position w t);
                       w1 = updateEntityPosition h t (snd sp) w;
                       s1 = fst sp
                   in Inr (s1\<lparr> state := (state s1)\<lparr> lastUpdate := now h \<rparr> \<rparr>, w1))))"

text \<open>The render handler bound in \<^verbatim>\<open>bindRender\<close>.\<close>

definition render :: "host \<Rightarrow> noclip \<times> world \<Rightarrow> error + noclip \<times> world" where
  "render h sw = (if shouldUpdate h (fst sw) then update h sw else Inr sw)"

text \<open>The two callbacks registered by \<^verbatim>\<open>init\<close>, and a run of the host's event loop.\<close>

datatype event = KeyToggle | Render

fun dispatch :: "event \<Rightarrow> host \<Rightarrow> noclip \<times> world \<Rightarrow> error + noclip \<times> world" where
  "dispatch KeyToggle h sw = Inr (toggle h sw)"
| "dispatch Render h sw = render h sw"

fun run :: "(event \<times> host) list \<Rightarrow> noclip \<times> world \<Rightarrow> error + noclip \<times> world" where
  "run [] sw = Inr sw"
| "run ((e, h) # es) sw =
     (case dispatch e h sw of Inl err \<Rightarrow> Inl err | Inr sw' \<Rightarrow> run es sw')"

subsection \<open>Observations on the call log\<close>

text \<open>The calls that \<open>w'\<close> holds beyond those of \<open>w\<close>.\<close>

definition issued :: "world \<Rightarrow> world \<Rightarrow> call list" where
  "issued w w' = drop (length (calls w)) (calls w')"

fun is_ground_query :: "call \<Rightarrow> bool" where
  "is_ground_query (GetGroundZ a b c) = True"
| "is_ground_query _ = False"

fun is_position_write :: "call \<Rightarrow> bool" where
  "is_position_write (SetCoordsNoOffset e a b c) = True"
| "is_position_write _ = False"

definition pressed :: "host \<Rightarrow> noclip \<Rightarrow> (controls \<Rightarrow> nat) \<Rightarrow> bool" where
  "pressed h s key = isControlPressed h (key (controls s))"

text \<open>
  What \<open>accelerateAxis\<close> does to the speed of its axis, and what one handler does to it
  (\<open>driven\<close>: one of the two keys of the axis is held).
\<close>

definition accel :: "config \<Rightarrow> real \<Rightarrow> real" where
  "accel c f = (if f < maxSpeed c then f * acceleration c else f)"

definition axis_next :: "bool \<Rightarrow> config \<Rightarrow> real \<Rightarrow> real" where
  "axis_next driven c f = (if driven then accel c f else baseSpeed c)"

text \<open>
  The events that are not a failed camera acquisition: a render frame asks for no
  camera, and for a toggle the host answers the request with a camera.
\<close>

definition acquires :: "event \<times> host \<Rightarrow> bool" where
  "acquires eh \<longleftrightarrow> fst eh = Render \<or> cameras_new (snd eh) \<noteq> None"

text \<open>
  The direction in which an axis is driven: the first key of the axis wins over the
  second, as the \<^verbatim>\<open>if / else if\<close> of each handler has it.
\<close>

definition key_sign :: "bool \<Rightarrow> bool \<Rightarrow> real" where
  "key_sign first second = (if first then 1 else if second then - 1 else 0)"

subsection \<open>Without a local player\<close>








subsection \<open>Scenarios\<close>

definition on_foot :: host where
  "on_foot = \<lparr> vehicle = None, cameras_new = Some 1, isControlPressed = (\<lambda>c. False),
               now = 1, getDirection = \<lparr> vx = 1, vy = 0, vz = 0 \<rparr>,
               getGroundZFor3dCoord = (\<lambda>a b c. 30) \<rparr>"

definition in_vehicle :: host where
  "in_vehicle = on_foot\<lparr> vehicle := Some \<lparr> ident = 7, handle = 4242 \<rparr> \<rparr>"

definition no_camera :: host where
  "no_camera = on_foot\<lparr> cameras_new := None \<rparr>"

definition world0 :: world where
  "world0 = \<lparr> position = (\<lambda>e. \<lparr> vx = 10, vy = 20, vz = 50 \<rparr>), calls = [] \<rparr>"

definition fresh :: "noclip \<times> world" where
  "fresh = (new_NoClipSystem 0, world0)"

text \<open>A frame at time \<open>t\<close> during which exactly the control \<open>k\<close> is held.\<close>

definition holding :: "nat \<Rightarrow> int \<Rightarrow> host" where
  "holding k t = on_foot\<lparr> isControlPressed := (\<lambda>c. c = k), now := t \<rparr>"

text \<open>\<open>n\<close> consecutive frames, one millisecond apart, with \<open>k\<close> held throughout.\<close>

fun held_frames :: "nat \<Rightarrow> nat \<Rightarrow> int \<Rightarrow> (event \<times> host) list" where
  "held_frames k 0 t = []"
| "held_frames k (Suc n) t = (Render, holding k t) # held_frames k n (t + 1)"

text \<open>A frame at time \<open>t\<close> during which exactly the controls in \<open>ks\<close> are held.\<close>

definition holding_keys :: "nat list \<Rightarrow> int \<Rightarrow> host" where
  "holding_keys ks t = on_foot\<lparr> isControlPressed := (\<lambda>c. c \<in> set ks), now := t \<rparr>"

section \<open>Properties\<close>

lemmas host_calls = issue_def freezePosition_def setCollision_def setCoordsNoOffset_def

lemmas transitions = toggle_def enable_def enable_with_def disable_def destroy_def
  getTargetEntity_def isPlayerInVehicle_def resetState_def setEntityToGround_def

lemmas movement = update_def getCurrentSpeed_def handleMovement_def
  handleForwardMovement_def handleStrafeMovement_def handleVerticalMovement_def
  accelerateAxis_def updateEntityPosition_def

lemmas scenario = fresh_def new_NoClipSystem_def world0_def on_foot_def in_vehicle_def
  no_camera_def

subsection \<open>Target resolution never yields null\<close>

lemma getTargetEntity_present: "getTargetEntity h \<noteq> None"
  by (simp add: getTargetEntity_def isPlayerInVehicle_def split: option.splits)

lemma toggle_on_fresh:
  "toggle on_foot fresh
     = ((new_NoClipSystem 0)\<lparr> isActive := True, targetEntity := Some LocalPlayer,
                               camera := Some 1 \<rparr>,
        world0\<lparr> calls := [CamerasNew, FreezePosition LocalPlayer True,
                            SetCollision LocalPlayer False False] \<rparr>)"
  by (simp add: transitions scenario host_calls)

subsection \<open>The speeds after one frame\<close>

lemma axis_set_same: "axis_set a (axis_get a m) m = m"
  by (cases a) simp_all

lemma accelerateAxis_accel:
  "accelerateAxis a s
     = s\<lparr> state := axis_set a (accel (config s) (axis_get a (state s))) (state s) \<rparr>"
  by (simp add: accelerateAxis_def accel_def axis_set_same)

lemma handleForwardMovement_state:
  "fst (handleForwardMovement h d k sp)
     = (fst sp)\<lparr> state := (state (fst sp))\<lparr> forward :=
         axis_next (pressed h (fst sp) FORWARD \<or> pressed h (fst sp) BACKWARD)
           (config (fst sp)) (forward (state (fst sp))) \<rparr> \<rparr>"
  by (simp add: handleForwardMovement_def accelerateAxis_accel axis_next_def pressed_def Let_def)

lemma handleStrafeMovement_state:
  "fst (handleStrafeMovement h d k sp)
     = (fst sp)\<lparr> state := (state (fst sp))\<lparr> strafe :=
         axis_next (pressed h (fst sp) LEFT \<or> pressed h (fst sp) RIGHT)
           (config (fst sp)) (strafe (state (fst sp))) \<rparr> \<rparr>"
  by (simp add: handleStrafeMovement_def accelerateAxis_accel axis_next_def pressed_def Let_def)

lemma handleVerticalMovement_state:
  "fst (handleVerticalMovement h k sp)
     = (fst sp)\<lparr> state := (state (fst sp))\<lparr> vertical :=
         axis_next (pressed h (fst sp) UP \<or> pressed h (fst sp) DOWN)
           (config (fst sp)) (vertical (state (fst sp))) \<rparr> \<rparr>"
  by (simp add: handleVerticalMovement_def accelerateAxis_accel axis_next_def pressed_def Let_def)

lemma handleMovement_state:
  "fst (handleMovement h d k sp)
     = (fst sp)\<lparr> state := (state (fst sp))\<lparr>
         forward := axis_next (pressed h (fst sp) FORWARD \<or> pressed h (fst sp) BACKWARD)
           (config (fst sp)) (forward (state (fst sp))),
         strafe := axis_next (pressed h (fst sp) LEFT \<or> pressed h (fst sp) RIGHT)
           (config (fst sp)) (strafe (state (fst sp))),
         vertical := axis_next (pressed h (fst sp) UP \<or> pressed h (fst sp) DOWN)
           (config (fst sp)) (vertical (state (fst sp))) \<rparr> \<rparr>"
  by (simp add: handleMovement_def handleForwardMovement_state handleStrafeMovement_state
      handleVerticalMovement_state pressed_def)

text \<open>
  A due frame never raises: \<open>shouldUpdate\<close> excludes the null dereferences of \<open>update\<close>.
  It leaves activation, camera, target, configuration and controls alone.
\<close>

lemma render_state:
  assumes "shouldUpdate h (fst sw)"
  shows "\<exists>w'. render h sw = Inr ((fst sw)\<lparr> state := (state (fst sw))\<lparr>
         forward := axis_next (pressed h (fst sw) FORWARD \<or> pressed h (fst sw) BACKWARD)
           (config (fst sw)) (forward (state (fst sw))),
         strafe := axis_next (pressed h (fst sw) LEFT \<or> pressed h (fst sw) RIGHT)
           (config (fst sw)) (strafe (state (fst sw))),
         vertical := axis_next (pressed h (fst sw) UP \<or> pressed h (fst sw) DOWN)
           (config (fst sw)) (vertical (state (fst sw))),
         lastUpdate := now h \<rparr> \<rparr>, w')"
proof -
  from assms obtain c t where "camera (fst sw) = Some c" and "targetEntity (fst sw) = Some t"
    by (auto simp add: shouldUpdate_def)
  then show ?thesis
    using assms by (simp add: render_def update_def Let_def handleMovement_state)
qed

lemma render_keeps_activation:
  "\<exists>sw'. render h sw = Inr sw' \<and> isActive (fst sw') = isActive (fst sw)
         \<and> camera (fst sw') = camera (fst sw) \<and> targetEntity (fst sw') = targetEntity (fst sw)"
proof (cases "shouldUpdate h (fst sw)")
  case True
  from render_state [OF True] show ?thesis by auto
next
  case False
  then show ?thesis by (simp add: render_def)
qed

text \<open>Releasing both keys of an axis puts its speed back to \<open>baseSpeed\<close> on that frame.\<close>

lemma released_axis_resets: "axis_next False c f = baseSpeed c"
  by (simp add: axis_next_def)

subsection \<open>The speed of a held axis\<close>

text \<open>
  While the speed is below \<open>maxSpeed\<close> it is multiplied by \<open>acceleration\<close>, with no
  clamp: the last multiplication may carry it above \<open>maxSpeed\<close>, by less than the factor
  \<open>acceleration\<close>.
\<close>

lemma accel_closed_form:
  assumes "1 \<le> acceleration c" and "0 \<le> f" and "f * acceleration c ^ n < maxSpeed c"
  shows "(accel c ^^ Suc n) f = f * acceleration c ^ Suc n"
  using assms
proof (induction n)
  case 0
  then show ?case by (simp add: accel_def)
next
  case (Suc n)
  have "f * acceleration c ^ n \<le> f * acceleration c ^ Suc n"
    using Suc.prems(1,2) by (simp add: mult_left_mono power_increasing)
  with Suc have prev: "(accel c ^^ Suc n) f = f * acceleration c ^ Suc n"
    by simp
  have "(accel c ^^ Suc (Suc n)) f = accel c ((accel c ^^ Suc n) f)"
    by simp
  also have "\<dots> = accel c (f * acceleration c ^ Suc n)"
    by (simp only: prev)
  also have "\<dots> = f * acceleration c ^ Suc (Suc n)"
    using Suc.prems(3) by (simp add: accel_def)
  finally show ?case .
qed

lemma accel_overshoot_bounded:
  assumes "1 \<le> acceleration c" and "0 \<le> baseSpeed c" and "baseSpeed c \<le> f"
    and "f < maxSpeed c * acceleration c"
  shows "baseSpeed c \<le> accel c f \<and> accel c f < maxSpeed c * acceleration c"
proof (cases "f < maxSpeed c")
  case True
  have "f * 1 \<le> f * acceleration c"
    using assms(1-3) by (intro mult_left_mono) simp_all
  moreover have "f * acceleration c < maxSpeed c * acceleration c"
    using True assms(1) by (intro mult_strict_right_mono) simp_all
  ultimately show ?thesis
    using True assms(3) by (simp add: accel_def)
next
  case False
  then show ?thesis
    using assms by (simp add: accel_def)
qed

lemma run_held_frames_forward:
  assumes "isActive s" and "camera s \<noteq> None" and "targetEntity s \<noteq> None"
    and "tickRate (config s) < t - lastUpdate (state s)" and "tickRate (config s) < 1"
    and "FORWARD (controls s) = k"
  shows "\<exists>s' w'. run (held_frames k n t) (s, w) = Inr (s', w') \<and> isActive s'
           \<and> config s' = config s
           \<and> forward (state s') = (accel (config s) ^^ n) (forward (state s))"
  using assms
proof (induction n arbitrary: s w t)
  case 0
  then show ?case by simp
next
  case (Suc n)
  let ?h = "holding k t"
  have due: "shouldUpdate ?h (fst (s, w))"
    using Suc.prems by (simp add: shouldUpdate_def holding_def)
  from render_state [OF due]
  obtain s1 w1 where step: "render ?h (s, w) = Inr (s1, w1)"
    and s1: "s1 = s\<lparr> state := (state s)\<lparr>
         forward := axis_next (pressed ?h s FORWARD \<or> pressed ?h s BACKWARD)
           (config s) (forward (state s)),
         strafe := axis_next (pressed ?h s LEFT \<or> pressed ?h s RIGHT)
           (config s) (strafe (state s)),
         vertical := axis_next (pressed ?h s UP \<or> pressed ?h s DOWN)
           (config s) (vertical (state s)),
         lastUpdate := now ?h \<rparr> \<rparr>"
    by auto
  have speed: "forward (state s1) = accel (config s) (forward (state s))"
    using Suc.prems(6) by (simp add: s1 axis_next_def pressed_def holding_def)
  have "\<exists>s' w'. run (held_frames k n (t + 1)) (s1, w1) = Inr (s', w') \<and> isActive s'
           \<and> config s' = config s1
           \<and> forward (state s') = (accel (config s1) ^^ n) (forward (state s1))"
    using Suc.prems by (intro Suc.IH) (simp_all add: s1 holding_def)
  then show ?case
    using step speed by (simp add: funpow_swap1 s1)
qed

lemma below_ceiling_56: "(2::real) * (41 / 40) ^ 56 < 8"
  by (simp add: power_divide)

lemma above_ceiling_57: "(8::real) < 2 * (41 / 40) ^ 57"
  by (simp add: power_divide)

text \<open>
  A new controller, switched on with the player on foot, then 57 frames with the forward
  control (0x20) held.
\<close>

lemma forward_after_57_frames:
  "\<exists>sw. run ((KeyToggle, on_foot) # held_frames 32 57 1) fresh = Inr sw
        \<and> isActive (fst sw) \<and> maxSpeed (config (fst sw)) = 8
        \<and> baseSpeed (config (fst sw)) = 2 \<and> acceleration (config (fst sw)) = 41 / 40
        \<and> forward (state (fst sw)) = 2 * (41 / 40) ^ 57"
proof -
  let ?s = "(new_NoClipSystem 0)\<lparr> isActive := True, targetEntity := Some LocalPlayer,
                               camera := Some 1 \<rparr>"
  let ?w = "world0\<lparr> calls := [CamerasNew, FreezePosition LocalPlayer True,
                            SetCollision LocalPlayer False False] \<rparr>"
  have "\<exists>s' w'. run (held_frames 32 57 1) (?s, ?w) = Inr (s', w') \<and> isActive s'
           \<and> config s' = config ?s
           \<and> forward (state s') = (accel (config ?s) ^^ 57) (forward (state ?s))"
    by (rule run_held_frames_forward) (simp_all add: new_NoClipSystem_def)
  moreover have "(accel (config ?s) ^^ Suc 56) (forward (state ?s))
      = forward (state ?s) * acceleration (config ?s) ^ Suc 56"
    by (rule accel_closed_form) (simp_all add: new_NoClipSystem_def below_ceiling_56)
  ultimately show ?thesis
    by (auto simp add: toggle_on_fresh new_NoClipSystem_def)
qed

subsection \<open>Axis speeds (C1, C2)\<close>

text \<open>
  C1: while the system is active every axis speed stays within \<open>[baseSpeed, maxSpeed]\<close>
  after every tick; in particular no axis speed ever exceeds \<open>maxSpeed\<close>.
  The code does not keep this bound: after 57 frames with the forward control held, a
  controller that is still active has a forward speed above its \<open>maxSpeed\<close>
  (\<open>2 * 1.025 ^ 57\<close>, about 8.17, against 8).
\<close>

theorem held_forward_exceeds_maxSpeed:
  "\<exists>sw. run ((KeyToggle, on_foot) # held_frames 32 57 1) fresh = Inr sw
        \<and> isActive (fst sw)
        \<and> maxSpeed (config (fst sw)) < forward (state (fst sw))"
  using forward_after_57_frames above_ceiling_57 by auto

text \<open>
  C2: holding an axis for \<open>N\<close> ticks from \<open>baseSpeed\<close> yields
  \<open>min (baseSpeed * acceleration ^ N) maxSpeed\<close>, and releasing yields \<open>baseSpeed\<close> on
  the next tick. The release part is \<open>released_axis_resets\<close> with \<open>render_state\<close>; the
  formula fails in the code at \<open>N = 57\<close>, where the speed is \<open>baseSpeed * acceleration ^ 57\<close>
  and not the minimum.
\<close>

theorem held_forward_not_clamped:
  "\<exists>sw. run ((KeyToggle, on_foot) # held_frames 32 57 1) fresh = Inr sw
        \<and> forward (state (fst sw)) = baseSpeed (config (fst sw)) * acceleration (config (fst sw)) ^ 57
        \<and> forward (state (fst sw))
            \<noteq> min (baseSpeed (config (fst sw)) * acceleration (config (fst sw)) ^ 57)
                  (maxSpeed (config (fst sw)))"
proof -
  from forward_after_57_frames
  obtain sw where ran: "run ((KeyToggle, on_foot) # held_frames 32 57 1) fresh = Inr sw"
    and cfg: "maxSpeed (config (fst sw)) = 8" "baseSpeed (config (fst sw)) = 2"
      "acceleration (config (fst sw)) = 41 / 40"
    and speed: "forward (state (fst sw)) = 2 * (41 / 40) ^ 57"
    by blast
  have "min (2 * (41 / 40) ^ 57) (8::real) = 8"
    using above_ceiling_57 by (rule min_absorb2 [OF less_imp_le])
  then have "forward (state (fst sw))
      \<noteq> min (baseSpeed (config (fst sw)) * acceleration (config (fst sw)) ^ 57)
            (maxSpeed (config (fst sw)))"
    using above_ceiling_57 unfolding cfg speed by linarith
  moreover have "forward (state (fst sw))
      = baseSpeed (config (fst sw)) * acceleration (config (fst sw)) ^ 57"
    by (simp only: cfg speed)
  ultimately show ?thesis
    using ran by blast
qed

subsection \<open>Enabling (C3, C4)\<close>

text \<open>
  C3: if camera acquisition fails during \<open>enable\<close>, then afterwards \<open>isActive\<close> is false
  and no freeze or collision call was issued: the only call is the camera request, and
  no position changed.
\<close>

theorem enable_camera_failure_aborts:
  assumes "cameras_new h = None"
  shows "\<not> isActive (fst (enable h sw))
       \<and> issued (snd sw) (snd (enable h sw)) = [CamerasNew]
       \<and> position (snd (enable h sw)) = position (snd sw)"
  using assms by (simp add: enable_def enable_with_def issued_def host_calls)

theorem enable_camera_failure_aborts_witness:
  "cameras_new no_camera = None
   \<and> \<not> isActive (fst (enable no_camera (new_NoClipSystem 0\<lparr>isActive := True\<rparr>, world0)))
   \<and> issued world0 (snd (enable no_camera (new_NoClipSystem 0\<lparr>isActive := True\<rparr>, world0)))
       = [CamerasNew]"
proof -
  have fails: "cameras_new no_camera = None"
    by (simp add: scenario)
  from enable_camera_failure_aborts [OF fails, of "(new_NoClipSystem 0\<lparr>isActive := True\<rparr>, world0)"]
    fails
  show ?thesis by simp
qed



subsection \<open>Reachable states (C5)\<close>

lemma toggle_consistent:
  "(camera (fst (toggle h sw)) \<noteq> None) = isActive (fst (toggle h sw))
   \<and> (isActive (fst (toggle h sw)) \<longrightarrow> targetEntity (fst (toggle h sw)) \<noteq> None)"
  using getTargetEntity_present [of h]
  by (auto simp add: toggle_def enable_def enable_with_def disable_def resetState_def Let_def
      split: option.splits)

lemma toggle_target_iff_active:
  assumes "cameras_new h \<noteq> None"
  shows "(targetEntity (fst (toggle h sw)) \<noteq> None) = isActive (fst (toggle h sw))"
  using assms getTargetEntity_present [of h]
  by (auto simp add: toggle_def enable_def enable_with_def disable_def resetState_def Let_def
      split: option.splits)

lemma run_consistent:
  assumes "(camera (fst sw) \<noteq> None) = isActive (fst sw)"
    and "isActive (fst sw) \<longrightarrow> targetEntity (fst sw) \<noteq> None"
  shows "\<exists>sw'. run evs sw = Inr sw'
           \<and> (camera (fst sw') \<noteq> None) = isActive (fst sw')
           \<and> (isActive (fst sw') \<longrightarrow> targetEntity (fst sw') \<noteq> None)"
  using assms
proof (induction evs arbitrary: sw)
  case Nil
  then show ?case by simp
next
  case (Cons ev evs)
  obtain e h where ev: "ev = (e, h)" by (cases ev)
  show ?case
  proof (cases e)
    case KeyToggle
    from Cons.IH [of "toggle h sw"] toggle_consistent [of h sw]
    show ?thesis by (simp add: ev KeyToggle)
  next
    case Render
    from render_keeps_activation [of h sw]
    obtain sw1 where step: "render h sw = Inr sw1"
      and keep: "isActive (fst sw1) = isActive (fst sw)" "camera (fst sw1) = camera (fst sw)"
        "targetEntity (fst sw1) = targetEntity (fst sw)"
      by blast
    from Cons.IH [of sw1] Cons.prems keep
    show ?thesis by (simp add: ev Render step)
  qed
qed

lemma run_target_iff_active:
  assumes "list_all acquires evs"
    and "(targetEntity (fst sw) \<noteq> None) = isActive (fst sw)"
    and "run evs sw = Inr sw'"
  shows "(targetEntity (fst sw') \<noteq> None) = isActive (fst sw')"
  using assms
proof (induction evs arbitrary: sw)
  case Nil
  then show ?case by simp
next
  case (Cons ev evs)
  obtain e h where ev: "ev = (e, h)" by (cases ev)
  from Cons.prems(1) have rest: "list_all acquires evs"
    by simp
  show ?case
  proof (cases e)
    case KeyToggle
    from Cons.prems(1) have cam: "cameras_new h \<noteq> None"
      by (simp add: ev KeyToggle acquires_def)
    from Cons.prems(3) have "run evs (toggle h sw) = Inr sw'"
      by (simp add: ev KeyToggle)
    with rest toggle_target_iff_active [OF cam, of sw] show ?thesis
      by (rule Cons.IH)
  next
    case Render
    from render_keeps_activation [of h sw]
    obtain sw1 where step: "render h sw = Inr sw1"
      and keep: "isActive (fst sw1) = isActive (fst sw)"
        "targetEntity (fst sw1) = targetEntity (fst sw)"
      by blast
    from Cons.prems(3) have "run evs sw1 = Inr sw'"
      by (simp add: ev Render step)
    moreover have "(targetEntity (fst sw1) \<noteq> None) = isActive (fst sw1)"
      using Cons.prems(2) keep by simp
    ultimately show ?thesis
      using rest by (intro Cons.IH [of sw1]) simp_all
  qed
qed

text \<open>
  C5: in every state reached by \<open>toggle\<close>, \<open>enable\<close> and \<open>disable\<close> calls, failed enables
  included, the target reference is present if and only if \<open>isActive\<close> is true. As stated
  this fails: after a \<open>toggle\<close> whose camera acquisition fails, and after \<open>enable\<close> called
  on its own (only \<open>toggle\<close> sets the flag), the target reference is present and
  \<open>isActive\<close> is false.
\<close>

theorem target_iff_active_counterexample:
  "targetEntity (fst (toggle no_camera fresh)) \<noteq> None \<and> \<not> isActive (fst (toggle no_camera fresh))
   \<and> targetEntity (fst (enable on_foot fresh)) \<noteq> None \<and> \<not> isActive (fst (enable on_foot fresh))"
  by (simp add: transitions scenario)

text \<open>
  C5, amended: in every state reached from a new controller by the two registered
  callbacks (the toggle key and the render frame, with any host answers), no callback
  raises, the camera handle is present if and only if \<open>isActive\<close> is true, and the target
  reference is present whenever \<open>isActive\<close> is true. If moreover no toggle on the way
  had its camera acquisition fail, the target reference is present if and only if
  \<open>isActive\<close> is true.
\<close>

theorem camera_present_iff_active:
  "\<exists>sw'. run evs (new_NoClipSystem t, w) = Inr sw'
         \<and> (camera (fst sw') \<noteq> None) = isActive (fst sw')
         \<and> (isActive (fst sw') \<longrightarrow> targetEntity (fst sw') \<noteq> None)
         \<and> (list_all acquires evs
              \<longrightarrow> (targetEntity (fst sw') \<noteq> None) = isActive (fst sw'))"
proof -
  have "\<exists>sw'. run evs (new_NoClipSystem t, w) = Inr sw'
         \<and> (camera (fst sw') \<noteq> None) = isActive (fst sw')
         \<and> (isActive (fst sw') \<longrightarrow> targetEntity (fst sw') \<noteq> None)"
    by (rule run_consistent) (simp_all add: new_NoClipSystem_def)
  then obtain sw' where ran: "run evs (new_NoClipSystem t, w) = Inr sw'"
    and cam: "(camera (fst sw') \<noteq> None) = isActive (fst sw')"
    and act: "isActive (fst sw') \<longrightarrow> targetEntity (fst sw') \<noteq> None"
    by blast
  have "(targetEntity (fst sw') \<noteq> None) = isActive (fst sw')" if "list_all acquires evs"
    using that _ ran by (rule run_target_iff_active) (simp add: new_NoClipSystem_def)
  with ran cam act show ?thesis
    by blast
qed

theorem camera_present_iff_active_witness:
  "list_all acquires [(KeyToggle, on_foot), (Render, holding 32 1)]
   \<and> (\<exists>sw'. run [(KeyToggle, on_foot), (Render, holding 32 1)] (new_NoClipSystem 0, world0)
                = Inr sw'
         \<and> isActive (fst sw') \<and> camera (fst sw') \<noteq> None \<and> targetEntity (fst sw') \<noteq> None)
   \<and> list_all acquires [(KeyToggle, on_foot), (Render, holding 32 1), (KeyToggle, in_vehicle)]
   \<and> (\<exists>sw'. run [(KeyToggle, on_foot), (Render, holding 32 1), (KeyToggle, in_vehicle)]
                (new_NoClipSystem 0, world0) = Inr sw'
         \<and> \<not> isActive (fst sw') \<and> camera (fst sw') = None \<and> targetEntity (fst sw') = None)"
proof -
  let ?on = "[(KeyToggle, on_foot), (Render, holding 32 1)]"
  let ?off = "[(KeyToggle, on_foot), (Render, holding 32 1), (KeyToggle, in_vehicle)]"
  have acq: "list_all acquires ?on" "list_all acquires ?off"
    by (simp_all add: acquires_def holding_def on_foot_def in_vehicle_def)
  from render_keeps_activation [of "holding 32 1" "toggle on_foot (new_NoClipSystem 0, world0)"]
  obtain sw1 where step: "render (holding 32 1) (toggle on_foot (new_NoClipSystem 0, world0)) = Inr sw1"
    and keep: "isActive (fst sw1) = isActive (fst (toggle on_foot (new_NoClipSystem 0, world0)))"
    by blast
  have active: "isActive (fst sw1)"
    using keep toggle_on_fresh by (simp add: fresh_def)
  from camera_present_iff_active [of ?on 0 world0] acq(1) active step
  have on: "\<exists>sw'. run ?on (new_NoClipSystem 0, world0) = Inr sw'
         \<and> isActive (fst sw') \<and> camera (fst sw') \<noteq> None \<and> targetEntity (fst sw') \<noteq> None"
    by auto
  have inactive: "\<not> isActive (fst (toggle in_vehicle sw1))"
    using active by (simp add: toggle_def disable_def resetState_def Let_def)
  from camera_present_iff_active [of ?off 0 world0] acq(2) inactive step
  have off: "\<exists>sw'. run ?off (new_NoClipSystem 0, world0) = Inr sw'
         \<and> \<not> isActive (fst sw') \<and> camera (fst sw') = None \<and> targetEntity (fst sw') = None"
    by auto
  from acq on off show ?thesis
    by blast
qed

subsection \<open>Toggling twice (C6)\<close>

text \<open>
  C6: two \<open>toggle\<close> calls in a row return the system to its original \<open>isActive\<close> value.
  As stated this fails: from a new (inactive) controller, a \<open>toggle\<close> whose camera
  acquisition fails followed by one that succeeds leaves the system active.
\<close>

theorem toggle_twice_counterexample:
  "isActive (fst (toggle on_foot (toggle no_camera fresh))) \<noteq> isActive (fst fresh)"
  by (simp add: transitions scenario)

text \<open>
  C6, amended: for every starting state, if the camera acquisitions of both calls
  succeed, two \<open>toggle\<close> calls in a row return \<open>isActive\<close> to its original value and leave
  the three axis speeds equal to \<open>baseSpeed\<close>.
\<close>

theorem toggle_twice_restores:
  assumes "cameras_new h1 \<noteq> None" and "cameras_new h2 \<noteq> None"
  shows "isActive (fst (toggle h2 (toggle h1 sw))) = isActive (fst sw)
       \<and> forward (state (fst (toggle h2 (toggle h1 sw)))) = baseSpeed (config (fst sw))
       \<and> strafe (state (fst (toggle h2 (toggle h1 sw)))) = baseSpeed (config (fst sw))
       \<and> vertical (state (fst (toggle h2 (toggle h1 sw)))) = baseSpeed (config (fst sw))"
  using assms
  by (auto simp add: toggle_def enable_def enable_with_def disable_def resetState_def Let_def
      split: option.splits)

theorem toggle_twice_restores_witness:
  "cameras_new on_foot \<noteq> None \<and> cameras_new in_vehicle \<noteq> None
   \<and> isActive (fst (toggle in_vehicle (toggle on_foot fresh))) = isActive (fst fresh)
   \<and> forward (state (fst (toggle in_vehicle (toggle on_foot fresh)))) = 2"
proof -
  have c1: "cameras_new on_foot \<noteq> None" and c2: "cameras_new in_vehicle \<noteq> None"
    by (simp_all add: scenario)
  from toggle_twice_restores [OF c1 c2, of fresh] c1 c2
  show ?thesis by (simp add: fresh_def new_NoClipSystem_def)
qed

subsection \<open>Disabling (C7, C8)\<close>

text \<open>
  C7: whenever \<open>disable\<close> runs with the bare player as the target, it issues exactly one
  ground-height query and exactly one position write. As stated this fails: \<open>disable\<close>
  reads the vehicle occupancy again, and with the player as the target but in a vehicle
  by then it only unfreezes the player and restores the collision flags, with no
  ground-height query and no position write.
\<close>

theorem disable_player_in_vehicle_counterexample:
  "targetEntity (fst (toggle on_foot fresh)) = Some LocalPlayer
   \<and> issued (snd (toggle on_foot fresh)) (snd (disable in_vehicle (toggle on_foot fresh)))
       = [FreezePosition LocalPlayer False, SetCollision LocalPlayer True True]"
  by (simp add: toggle_on_fresh disable_def isPlayerInVehicle_def in_vehicle_def
      issued_def host_calls world0_def)

text \<open>
  C7, amended: whenever \<open>disable\<close> runs with the bare player as the target and the player
  is not in a vehicle at that moment, it issues exactly one ground-height query and
  exactly one position write, and that write places \<open>z\<close> at the returned ground height and
  leaves \<open>x\<close> and \<open>y\<close> of the player's current position \<open>p\<close> unchanged.
\<close>

theorem disable_player_ground_snap:
  assumes "targetEntity (fst sw) = Some LocalPlayer" and "\<not> isPlayerInVehicle h"
    and "position (snd sw) LocalPlayer = p"
  shows "issued (snd sw) (snd (disable h sw))
           = [FreezePosition LocalPlayer False, SetCollision LocalPlayer True True,
              GetGroundZ (vx p) (vy p) (vz p),
              SetCoordsNoOffset LocalPlayer (vx p) (vy p)
                (getGroundZFor3dCoord h (vx p) (vy p) (vz p))]
       \<and> length (filter is_ground_query (issued (snd sw) (snd (disable h sw)))) = 1
       \<and> length (filter is_position_write (issued (snd sw) (snd (disable h sw)))) = 1
       \<and> position (snd (disable h sw)) LocalPlayer
           = \<lparr> vx = vx p, vy = vy p, vz = getGroundZFor3dCoord h (vx p) (vy p) (vz p) \<rparr>"
  using assms
  by (simp add: disable_def setEntityToGround_def issued_def host_calls Let_def)

theorem disable_player_ground_snap_witness:
  "targetEntity (fst (toggle on_foot fresh)) = Some LocalPlayer
   \<and> \<not> isPlayerInVehicle on_foot
   \<and> position (snd (toggle on_foot fresh)) LocalPlayer = \<lparr> vx = 10, vy = 20, vz = 50 \<rparr>
   \<and> issued (snd (toggle on_foot fresh)) (snd (disable on_foot (toggle on_foot fresh)))
      = [FreezePosition LocalPlayer False, SetCollision LocalPlayer True True,
         GetGroundZ 10 20 50, SetCoordsNoOffset LocalPlayer 10 20 30]"
proof -
  have tgt: "targetEntity (fst (toggle on_foot fresh)) = Some LocalPlayer"
    by (simp add: toggle_on_fresh)
  have foot: "\<not> isPlayerInVehicle on_foot"
    by (simp add: isPlayerInVehicle_def on_foot_def)
  have pos: "position (snd (toggle on_foot fresh)) LocalPlayer = \<lparr> vx = 10, vy = 20, vz = 50 \<rparr>"
    by (simp add: toggle_on_fresh world0_def)
  from disable_player_ground_snap [OF tgt foot pos] tgt foot pos
  show ?thesis by (simp add: on_foot_def)
qed

text \<open>
  C8: if the player was in a vehicle when \<open>enable\<close> ran and still occupies it,
  \<open>disable\<close> unfreezes the vehicle, sets both collision flags of the vehicle to enabled,
  and performs no ground snap: no ground-height query and no position write.
\<close>

theorem disable_vehicle_restores:
  assumes "vehicle h = Some v" and "handle v \<noteq> 0" and "vehicle h' = vehicle h"
  shows "targetEntity (fst (enable h sw)) = Some (Vehicle (ident v))
       \<and> issued (snd (enable h sw)) (snd (disable h' (enable h sw)))
           = [FreezePosition (Vehicle (ident v)) False, SetCollision (Vehicle (ident v)) True True]
       \<and> filter is_ground_query (issued (snd (enable h sw)) (snd (disable h' (enable h sw)))) = []
       \<and> filter is_position_write (issued (snd (enable h sw)) (snd (disable h' (enable h sw)))) = []
       \<and> position (snd (disable h' (enable h sw))) = position (snd sw)"
  using assms
  by (auto simp add: enable_def enable_with_def disable_def getTargetEntity_def
      isPlayerInVehicle_def issued_def host_calls Let_def)

theorem disable_vehicle_restores_witness:
  "vehicle in_vehicle = Some \<lparr> ident = 7, handle = 4242 \<rparr>
   \<and> handle \<lparr> ident = 7, handle = 4242 \<rparr> \<noteq> 0
   \<and> issued (snd (enable in_vehicle fresh)) (snd (disable in_vehicle (enable in_vehicle fresh)))
      = [FreezePosition (Vehicle 7) False, SetCollision (Vehicle 7) True True]"
proof -
  have veh: "vehicle in_vehicle = Some \<lparr> ident = 7, handle = 4242 \<rparr>"
    by (simp add: scenario)
  have hnd: "handle \<lparr> ident = 7, handle = 4242 \<rparr> \<noteq> 0"
    by simp
  from disable_vehicle_restores [OF veh hnd refl, of fresh] veh
  show ?thesis by simp
qed

subsection \<open>Acceleration before displacement (C9)\<close>

text \<open>
  Each handler on its own: the position moves along the direction of the axis by the
  speed after \<open>accelerateAxis\<close> times the multiplier, forwards for the first key of the
  axis, backwards for the second, and not at all when neither is held.
\<close>

lemma handleForwardMovement_position:
  "snd (handleForwardMovement h d k sp)
     = (snd sp)\<lparr>
         vx := vx (snd sp) + vx d * (key_sign (pressed h (fst sp) FORWARD) (pressed h (fst sp) BACKWARD)
                 * (accel (config (fst sp)) (forward (state (fst sp))) * k)),
         vy := vy (snd sp) + vy d * (key_sign (pressed h (fst sp) FORWARD) (pressed h (fst sp) BACKWARD)
                 * (accel (config (fst sp)) (forward (state (fst sp))) * k)),
         vz := vz (snd sp) + vz d * (key_sign (pressed h (fst sp) FORWARD) (pressed h (fst sp) BACKWARD)
                 * (accel (config (fst sp)) (forward (state (fst sp))) * k)) \<rparr>"
  by (simp add: handleForwardMovement_def accelerateAxis_accel key_sign_def pressed_def Let_def)

lemma handleStrafeMovement_position:
  "snd (handleStrafeMovement h d k sp)
     = (snd sp)\<lparr>
         vx := vx (snd sp) + - vy d * (key_sign (pressed h (fst sp) LEFT) (pressed h (fst sp) RIGHT)
                 * (accel (config (fst sp)) (strafe (state (fst sp))) * k)),
         vy := vy (snd sp) + vx d * (key_sign (pressed h (fst sp) LEFT) (pressed h (fst sp) RIGHT)
                 * (accel (config (fst sp)) (strafe (state (fst sp))) * k)) \<rparr>"
  by (simp add: handleStrafeMovement_def accelerateAxis_accel key_sign_def pressed_def Let_def)

lemma handleVerticalMovement_position:
  "snd (handleVerticalMovement h k sp)
     = (snd sp)\<lparr>
         vz := vz (snd sp) + key_sign (pressed h (fst sp) UP) (pressed h (fst sp) DOWN)
                 * (accel (config (fst sp)) (vertical (state (fst sp))) * k) \<rparr>"
  by (simp add: handleVerticalMovement_def accelerateAxis_accel key_sign_def pressed_def Let_def)

lemma handleMovement_position:
  "snd (handleMovement h d k sp)
     = \<lparr> vx = vx (snd sp)
              + vx d * (key_sign (pressed h (fst sp) FORWARD) (pressed h (fst sp) BACKWARD)
                 * (accel (config (fst sp)) (forward (state (fst sp))) * k))
              + - vy d * (key_sign (pressed h (fst sp) LEFT) (pressed h (fst sp) RIGHT)
                 * (accel (config (fst sp)) (strafe (state (fst sp))) * k)),
         vy = vy (snd sp)
              + vy d * (key_sign (pressed h (fst sp) FORWARD) (pressed h (fst sp) BACKWARD)
                 * (accel (config (fst sp)) (forward (state (fst sp))) * k))
              + vx d * (key_sign (pressed h (fst sp) LEFT) (pressed h (fst sp) RIGHT)
                 * (accel (config (fst sp)) (strafe (state (fst sp))) * k)),
         vz = vz (snd sp)
              + vz d * (key_sign (pressed h (fst sp) FORWARD) (pressed h (fst sp) BACKWARD)
                 * (accel (config (fst sp)) (forward (state (fst sp))) * k))
              + key_sign (pressed h (fst sp) UP) (pressed h (fst sp) DOWN)
                 * (accel (config (fst sp)) (vertical (state (fst sp))) * k) \<rparr>"
  by (simp add: handleMovement_def handleForwardMovement_position handleStrafeMovement_position
      handleVerticalMovement_position handleForwardMovement_state handleStrafeMovement_state
      pressed_def)

text \<open>
  C9: the acceleration is applied before the displacement, so the first tick of a newly
  held input moves the entity by \<open>baseSpeed * acceleration * speedMultiplier\<close>. As
  stated this fails when the newly held key reverses an axis that was driven on the
  tick before: the axis speed is not reset in between. After one frame with FORWARD
  (0x20) held and a first frame with BACKWARD (0x21) held, the second write moves the
  player back by \<open>2.05 * 1.025 * 0.2 = 0.42025\<close> (from \<open>x = 10.41\<close> to \<open>x = 9.98975\<close>),
  not by \<open>0.41\<close>.
\<close>

theorem reversed_axis_first_tick_counterexample:
  "map_sum id (calls \<circ> snd)
     (run [(KeyToggle, on_foot), (Render, holding 32 1), (Render, holding 33 2)] fresh)
     = Inr [CamerasNew, FreezePosition LocalPlayer True, SetCollision LocalPlayer False False,
            SetCoordsNoOffset LocalPlayer (1041 / 100) 20 50,
            SetCoordsNoOffset LocalPlayer (998975 / 100000) 20 50]
   \<and> (1041 / 100 - 998975 / 100000 :: real) \<noteq> 2 * (1025 / 1000) * (2 / 10)"
  by (simp add: toggle_on_fresh)
    (simp add: render_def shouldUpdate_def movement new_NoClipSystem_def
      world0_def holding_def on_foot_def isPlayerInVehicle_def host_calls Let_def)

text \<open>
  C9, amended: on every tick, for every axis with a key held (either key, whatever else
  is held), the acceleration is applied before the displacement: the displacement of
  the axis is its speed after acceleration (\<open>f * acceleration\<close> when the speed \<open>f\<close>
  before the tick is below \<open>maxSpeed\<close>, \<open>f\<close> otherwise) times the speed multiplier, along
  the direction of the axis, forwards for the first key and backwards for the second;
  an axis with no key held adds nothing and its speed becomes \<open>baseSpeed\<close>. The three
  displacements are added to the target's position \<open>p\<close> and written once. On a tick
  that an axis starts at \<open>baseSpeed\<close> (below \<open>maxSpeed\<close>), as it does after any tick on
  which it was released, its displacement is \<open>baseSpeed * acceleration * speedMultiplier\<close>.
\<close>

theorem displacement_uses_accelerated_speed:
  assumes "camera (fst sw) \<noteq> None" and "targetEntity (fst sw) = Some t"
    and "position (snd sw) t = p" and "getDirection h = d"
    and "getCurrentSpeed h (fst sw) = k"
    and "dest = (if isPlayerInVehicle h then t else LocalPlayer)"
    and "c = config (fst sw)"
    and "f = forward (state (fst sw))" and "g = strafe (state (fst sw))"
    and "v = vertical (state (fst sw))"
    and "f' = (if f < maxSpeed c then f * acceleration c else f)"
    and "g' = (if g < maxSpeed c then g * acceleration c else g)"
    and "v' = (if v < maxSpeed c then v * acceleration c else v)"
    and "mF = key_sign (pressed h (fst sw) FORWARD) (pressed h (fst sw) BACKWARD) * (f' * k)"
    and "mS = key_sign (pressed h (fst sw) LEFT) (pressed h (fst sw) RIGHT) * (g' * k)"
    and "mV = key_sign (pressed h (fst sw) UP) (pressed h (fst sw) DOWN) * (v' * k)"
  shows "\<exists>s' w'. update h sw = Inr (s', w')
           \<and> issued (snd sw) w'
               = [SetCoordsNoOffset dest (vx p + vx d * mF + - vy d * mS)
                    (vy p + vy d * mF + vx d * mS) (vz p + vz d * mF + mV)]
           \<and> forward (state s')
               = (if pressed h (fst sw) FORWARD \<or> pressed h (fst sw) BACKWARD then f'
                  else baseSpeed c)
           \<and> strafe (state s')
               = (if pressed h (fst sw) LEFT \<or> pressed h (fst sw) RIGHT then g'
                  else baseSpeed c)
           \<and> vertical (state s')
               = (if pressed h (fst sw) UP \<or> pressed h (fst sw) DOWN then v'
                  else baseSpeed c)
           \<and> (f = baseSpeed c \<and> baseSpeed c < maxSpeed c
                \<longrightarrow> mF = key_sign (pressed h (fst sw) FORWARD) (pressed h (fst sw) BACKWARD)
                           * (baseSpeed c * acceleration c * k))
           \<and> (g = baseSpeed c \<and> baseSpeed c < maxSpeed c
                \<longrightarrow> mS = key_sign (pressed h (fst sw) LEFT) (pressed h (fst sw) RIGHT)
                           * (baseSpeed c * acceleration c * k))
           \<and> (v = baseSpeed c \<and> baseSpeed c < maxSpeed c
                \<longrightarrow> mV = key_sign (pressed h (fst sw) UP) (pressed h (fst sw) DOWN)
                           * (baseSpeed c * acceleration c * k))"
proof -
  from assms(1) obtain cam where cam: "camera (fst sw) = Some cam"
    by blast
  let ?sp = "handleMovement h d k (fst sw, p)"
  have upd: "update h sw
      = Inr ((fst ?sp)\<lparr> state := (state (fst ?sp))\<lparr> lastUpdate := now h \<rparr> \<rparr>,
             updateEntityPosition h t (snd ?sp) (snd sw))"
    using assms(2-5) by (simp add: update_def cam Let_def)
  have f': "f' = accel c f" and g': "g' = accel c g" and v': "v' = accel c v"
    using assms(11-13) by (simp_all add: accel_def)
  have pos: "snd ?sp = \<lparr> vx = vx p + vx d * mF + - vy d * mS,
                         vy = vy p + vy d * mF + vx d * mS,
                         vz = vz p + vz d * mF + mV \<rparr>"
    using assms(7-10,14-16) by (simp add: handleMovement_position f' g' v')
  have wr: "issued (snd sw) (updateEntityPosition h t (snd ?sp) (snd sw))
      = [SetCoordsNoOffset dest (vx p + vx d * mF + - vy d * mS)
           (vy p + vy d * mF + vx d * mS) (vz p + vz d * mF + mV)]"
    using assms(6) by (simp add: pos updateEntityPosition_def issued_def host_calls)
  have st: "forward (state (fst ?sp))
              = (if pressed h (fst sw) FORWARD \<or> pressed h (fst sw) BACKWARD then f'
                 else baseSpeed c)"
    "strafe (state (fst ?sp))
              = (if pressed h (fst sw) LEFT \<or> pressed h (fst sw) RIGHT then g'
                 else baseSpeed c)"
    "vertical (state (fst ?sp))
              = (if pressed h (fst sw) UP \<or> pressed h (fst sw) DOWN then v'
                 else baseSpeed c)"
    using assms(7-10) by (simp_all add: handleMovement_state axis_next_def f' g' v')
  have first: "f = baseSpeed c \<and> baseSpeed c < maxSpeed c
                \<longrightarrow> mF = key_sign (pressed h (fst sw) FORWARD) (pressed h (fst sw) BACKWARD)
                           * (baseSpeed c * acceleration c * k)"
    "g = baseSpeed c \<and> baseSpeed c < maxSpeed c
                \<longrightarrow> mS = key_sign (pressed h (fst sw) LEFT) (pressed h (fst sw) RIGHT)
                           * (baseSpeed c * acceleration c * k)"
    "v = baseSpeed c \<and> baseSpeed c < maxSpeed c
                \<longrightarrow> mV = key_sign (pressed h (fst sw) UP) (pressed h (fst sw) DOWN)
                           * (baseSpeed c * acceleration c * k)"
    using assms(11-16) by simp_all
  show ?thesis
    using wr st first by (simp add: upd)
qed

theorem displacement_uses_accelerated_speed_witness:
  "camera (fst (toggle on_foot fresh)) \<noteq> None
   \<and> targetEntity (fst (toggle on_foot fresh)) = Some LocalPlayer
   \<and> forward (state (fst (toggle on_foot fresh))) = baseSpeed (config (fst (toggle on_foot fresh)))
   \<and> baseSpeed (config (fst (toggle on_foot fresh))) < maxSpeed (config (fst (toggle on_foot fresh)))
   \<and> key_sign (pressed (holding_keys [33, 35, 326] 1) (fst (toggle on_foot fresh)) FORWARD)
        (pressed (holding_keys [33, 35, 326] 1) (fst (toggle on_foot fresh)) BACKWARD) = - 1
   \<and> (\<exists>s' w'. update (holding_keys [33, 35, 326] 1) (toggle on_foot fresh) = Inr (s', w')
         \<and> issued (snd (toggle on_foot fresh)) w'
             = [SetCoordsNoOffset LocalPlayer (959 / 100) (1959 / 100) (4959 / 100)]
         \<and> forward (state s') = 41 / 20 \<and> strafe (state s') = 41 / 20
         \<and> vertical (state s') = 41 / 20)
   \<and> (\<exists>s' w'. update (holding_keys [32, 34, 321] 1) (toggle on_foot fresh) = Inr (s', w')
         \<and> issued (snd (toggle on_foot fresh)) w'
             = [SetCoordsNoOffset LocalPlayer (1041 / 100) (2041 / 100) (5041 / 100)]
         \<and> forward (state s') = 41 / 20 \<and> strafe (state s') = 41 / 20
         \<and> vertical (state s') = 41 / 20)"
proof -
  let ?sw = "toggle on_foot fresh"
  have cam: "camera (fst ?sw) \<noteq> None"
    and tgt: "targetEntity (fst ?sw) = Some LocalPlayer"
    and pos: "position (snd ?sw) LocalPlayer = \<lparr> vx = 10, vy = 20, vz = 50 \<rparr>"
    by (simp_all add: toggle_on_fresh new_NoClipSystem_def world0_def)
  have cfg: "acceleration (config (fst ?sw)) = 41 / 40" "maxSpeed (config (fst ?sw)) = 8"
    "baseSpeed (config (fst ?sw)) = 2"
    "forward (state (fst ?sw)) = 2" "strafe (state (fst ?sw)) = 2"
    "vertical (state (fst ?sw)) = 2"
    by (simp_all add: toggle_on_fresh new_NoClipSystem_def)
  have dir: "getDirection (holding_keys ks 1) = \<lparr> vx = 1, vy = 0, vz = 0 \<rparr>" for ks
    by (simp add: holding_keys_def on_foot_def)
  have dest: "LocalPlayer
      = (if isPlayerInVehicle (holding_keys ks 1) then LocalPlayer else LocalPlayer)" for ks
    by simp
  have spd: "getCurrentSpeed (holding_keys [33, 35, 326] 1) (fst ?sw) = 1 / 5"
    "getCurrentSpeed (holding_keys [32, 34, 321] 1) (fst ?sw) = 1 / 5"
    by (simp_all add: getCurrentSpeed_def holding_keys_def toggle_on_fresh new_NoClipSystem_def)
  have keys: "pressed (holding_keys ks 1) (fst ?sw) FORWARD \<longleftrightarrow> 32 \<in> set ks"
    "pressed (holding_keys ks 1) (fst ?sw) BACKWARD \<longleftrightarrow> 33 \<in> set ks"
    "pressed (holding_keys ks 1) (fst ?sw) LEFT \<longleftrightarrow> 34 \<in> set ks"
    "pressed (holding_keys ks 1) (fst ?sw) RIGHT \<longleftrightarrow> 35 \<in> set ks"
    "pressed (holding_keys ks 1) (fst ?sw) UP \<longleftrightarrow> 321 \<in> set ks"
    "pressed (holding_keys ks 1) (fst ?sw) DOWN \<longleftrightarrow> 326 \<in> set ks" for ks
    by (simp_all add: pressed_def holding_keys_def toggle_on_fresh new_NoClipSystem_def)
  from displacement_uses_accelerated_speed
    [OF cam tgt pos dir spd(1) dest refl refl refl refl refl refl refl refl refl refl]
  have bwd: "\<exists>s' w'. update (holding_keys [33, 35, 326] 1) ?sw = Inr (s', w')
         \<and> issued (snd ?sw) w'
             = [SetCoordsNoOffset LocalPlayer (959 / 100) (1959 / 100) (4959 / 100)]
         \<and> forward (state s') = 41 / 20 \<and> strafe (state s') = 41 / 20
         \<and> vertical (state s') = 41 / 20"
    by (simp add: keys cfg key_sign_def)
  from displacement_uses_accelerated_speed
    [OF cam tgt pos dir spd(2) dest refl refl refl refl refl refl refl refl refl refl]
  have fwd: "\<exists>s' w'. update (holding_keys [32, 34, 321] 1) ?sw = Inr (s', w')
         \<and> issued (snd ?sw) w'
             = [SetCoordsNoOffset LocalPlayer (1041 / 100) (2041 / 100) (5041 / 100)]
         \<and> forward (state s') = 41 / 20 \<and> strafe (state s') = 41 / 20
         \<and> vertical (state s') = 41 / 20"
    by (simp add: keys cfg key_sign_def)
  have sign: "key_sign (pressed (holding_keys [33, 35, 326] 1) (fst ?sw) FORWARD)
        (pressed (holding_keys [33, 35, 326] 1) (fst ?sw) BACKWARD) = - 1"
    by (simp add: keys key_sign_def)
  have base: "forward (state (fst ?sw)) = baseSpeed (config (fst ?sw))"
    "baseSpeed (config (fst ?sw)) < maxSpeed (config (fst ?sw))"
    by (simp_all add: cfg)
  from cam tgt base sign bwd fwd show ?thesis
    by blast
qed

subsection \<open>Destroying (C10)\<close>

text \<open>
  C10: \<open>destroy\<close> on an active system runs the whole restoration of \<open>disable\<close>: with a
  target it unfreezes and restores both collision flags, on the vehicle when the player
  is in one, else on the player, who is then also put on the ground (one ground-height
  query, one position write); the axis speeds are reset and the camera and the target
  are cleared. It leaves \<open>isActive\<close> true, so a following \<open>toggle\<close> flips the flag to false
  and runs \<open>disable\<close> a second time, which finds no target and issues no call.
\<close>

theorem destroy_leaves_active:
  assumes "isActive (fst sw)" and "position (snd sw) LocalPlayer = p"
  shows "destroy h sw = disable h sw
       \<and> issued (snd sw) (snd (destroy h sw))
           = (case targetEntity (fst sw) of
                None \<Rightarrow> []
              | Some t \<Rightarrow>
                  if isPlayerInVehicle h
                  then [FreezePosition t False, SetCollision t True True]
                  else [FreezePosition LocalPlayer False, SetCollision LocalPlayer True True,
                        GetGroundZ (vx p) (vy p) (vz p),
                        SetCoordsNoOffset LocalPlayer (vx p) (vy p)
                          (getGroundZFor3dCoord h (vx p) (vy p) (vz p))])
       \<and> isActive (fst (destroy h sw))
       \<and> camera (fst (destroy h sw)) = None
       \<and> targetEntity (fst (destroy h sw)) = None
       \<and> forward (state (fst (destroy h sw))) = baseSpeed (config (fst sw))
       \<and> strafe (state (fst (destroy h sw))) = baseSpeed (config (fst sw))
       \<and> vertical (state (fst (destroy h sw))) = baseSpeed (config (fst sw))
       \<and> toggle h' (destroy h sw)
           = disable h' ((fst (destroy h sw))\<lparr> isActive := False \<rparr>, snd (destroy h sw))
       \<and> \<not> isActive (fst (toggle h' (destroy h sw)))
       \<and> issued (snd (destroy h sw)) (snd (toggle h' (destroy h sw))) = []"
  using assms
  by (simp add: destroy_def disable_def toggle_def resetState_def setEntityToGround_def
      issued_def host_calls Let_def split: option.splits)

theorem destroy_leaves_active_witness:
  "isActive (fst (toggle on_foot fresh))
   \<and> position (snd (toggle on_foot fresh)) LocalPlayer = \<lparr> vx = 10, vy = 20, vz = 50 \<rparr>
   \<and> issued (snd (toggle on_foot fresh)) (snd (destroy on_foot (toggle on_foot fresh)))
       = [FreezePosition LocalPlayer False, SetCollision LocalPlayer True True,
          GetGroundZ 10 20 50, SetCoordsNoOffset LocalPlayer 10 20 30]
   \<and> issued (snd (toggle on_foot fresh)) (snd (destroy in_vehicle (toggle on_foot fresh)))
       = [FreezePosition LocalPlayer False, SetCollision LocalPlayer True True]
   \<and> isActive (fst (destroy on_foot (toggle on_foot fresh)))
   \<and> camera (fst (destroy on_foot (toggle on_foot fresh))) = None
   \<and> targetEntity (fst (destroy on_foot (toggle on_foot fresh))) = None
   \<and> \<not> isActive (fst (toggle on_foot (destroy on_foot (toggle on_foot fresh))))
   \<and> issued (snd (destroy on_foot (toggle on_foot fresh)))
        (snd (toggle on_foot (destroy on_foot (toggle on_foot fresh)))) = []"
proof -
  have active: "isActive (fst (toggle on_foot fresh))"
    by (simp add: toggle_on_fresh)
  have pos: "position (snd (toggle on_foot fresh)) LocalPlayer = \<lparr> vx = 10, vy = 20, vz = 50 \<rparr>"
    by (simp add: toggle_on_fresh world0_def)
  have tgt: "targetEntity (fst (toggle on_foot fresh)) = Some LocalPlayer"
    by (simp add: toggle_on_fresh)
  have occ: "\<not> isPlayerInVehicle on_foot" "isPlayerInVehicle in_vehicle"
    by (simp_all add: isPlayerInVehicle_def on_foot_def in_vehicle_def)
  have ground: "getGroundZFor3dCoord on_foot 10 20 50 = 30"
    by (simp add: on_foot_def)
  from destroy_leaves_active [OF active pos, of on_foot on_foot]
  have foot: "issued (snd (toggle on_foot fresh)) (snd (destroy on_foot (toggle on_foot fresh)))
       = [FreezePosition LocalPlayer False, SetCollision LocalPlayer True True,
          GetGroundZ 10 20 50, SetCoordsNoOffset LocalPlayer 10 20 30]
     \<and> isActive (fst (destroy on_foot (toggle on_foot fresh)))
     \<and> camera (fst (destroy on_foot (toggle on_foot fresh))) = None
     \<and> targetEntity (fst (destroy on_foot (toggle on_foot fresh))) = None
     \<and> \<not> isActive (fst (toggle on_foot (destroy on_foot (toggle on_foot fresh))))
     \<and> issued (snd (destroy on_foot (toggle on_foot fresh)))
        (snd (toggle on_foot (destroy on_foot (toggle on_foot fresh)))) = []"
    by (elim conjE) (simp add: tgt occ ground)
  from destroy_leaves_active [OF active pos, of in_vehicle on_foot]
  have veh: "issued (snd (toggle on_foot fresh)) (snd (destroy in_vehicle (toggle on_foot fresh)))
       = [FreezePosition LocalPlayer False, SetCollision LocalPlayer True True]"
    by (elim conjE) (simp add: tgt occ)
  from active pos foot veh show ?thesis
    by blast
qed

end
